theory Spec2Isabelle
  imports Complex_Main
begin

section \<open>JavaScript numbers\<close>

text \<open>
  Every quantity of the quantitative core is a JavaScript \<^verbatim>\<open>number\<close>. A number is
  modelled as a finite real, one of the two infinities, or NaN. Arithmetic on finite values
  is exact (no rounding, no overflow to infinity) and the sign of a zero is not tracked (a
  zero divisor is read as +0); the special values follow IEEE 754 as JavaScript applies
  it: NaN is absorbing, every comparison with NaN is false, a non-zero finite number
  divided by zero is an infinity and 0/0 is NaN.
\<close>

datatype jsnum = Fin real | PInf | NInf | NaN

fun jneg :: "jsnum \<Rightarrow> jsnum" where
  "jneg (Fin x) = Fin (- x)"
| "jneg PInf = NInf"
| "jneg NInf = PInf"
| "jneg NaN = NaN"

fun jadd :: "jsnum \<Rightarrow> jsnum \<Rightarrow> jsnum" where
  "jadd (Fin x) (Fin y) = Fin (x + y)"
| "jadd NaN b = NaN"
| "jadd a NaN = NaN"
| "jadd PInf NInf = NaN"
| "jadd NInf PInf = NaN"
| "jadd PInf b = PInf"
| "jadd a PInf = PInf"
| "jadd NInf b = NInf"
| "jadd a NInf = NInf"

definition jsub :: "jsnum \<Rightarrow> jsnum \<Rightarrow> jsnum" where
  "jsub a b = jadd a (jneg b)"

fun jmul :: "jsnum \<Rightarrow> jsnum \<Rightarrow> jsnum" where
  "jmul (Fin x) (Fin y) = Fin (x * y)"
| "jmul NaN b = NaN"
| "jmul a NaN = NaN"
| "jmul PInf (Fin y) = (if 0 < y then PInf else if y < 0 then NInf else NaN)"
| "jmul NInf (Fin y) = (if 0 < y then NInf else if y < 0 then PInf else NaN)"
| "jmul (Fin x) PInf = (if 0 < x then PInf else if x < 0 then NInf else NaN)"
| "jmul (Fin x) NInf = (if 0 < x then NInf else if x < 0 then PInf else NaN)"
| "jmul PInf PInf = PInf"
| "jmul PInf NInf = NInf"
| "jmul NInf PInf = NInf"
| "jmul NInf NInf = PInf"

fun jdiv :: "jsnum \<Rightarrow> jsnum \<Rightarrow> jsnum" where
  "jdiv (Fin x) (Fin y) =
     (if y \<noteq> 0 then Fin (x / y)
      else if 0 < x then PInf else if x < 0 then NInf else NaN)"
| "jdiv NaN b = NaN"
| "jdiv a NaN = NaN"
| "jdiv (Fin x) PInf = Fin 0"
| "jdiv (Fin x) NInf = Fin 0"
| "jdiv PInf (Fin y) = (if 0 \<le> y then PInf else NInf)"
| "jdiv NInf (Fin y) = (if 0 \<le> y then NInf else PInf)"
| "jdiv PInf b = NaN"
| "jdiv NInf b = NaN"

text \<open>The comparisons \<^verbatim>\<open><\<close>, \<^verbatim>\<open>></\<close>, \<^verbatim>\<open><=\<close>, \<^verbatim>\<open>>=\<close>, \<^verbatim>\<open>===\<close> and \<^verbatim>\<open>!==\<close>.\<close>

fun jlt :: "jsnum \<Rightarrow> jsnum \<Rightarrow> bool" where
  "jlt (Fin x) (Fin y) = (x < y)"
| "jlt NaN b = False"
| "jlt a NaN = False"
| "jlt a NInf = False"
| "jlt PInf b = False"
| "jlt NInf b = True"
| "jlt a PInf = True"

definition jgt :: "jsnum \<Rightarrow> jsnum \<Rightarrow> bool" where
  "jgt a b = jlt b a"

definition jeq :: "jsnum \<Rightarrow> jsnum \<Rightarrow> bool" where
  "jeq a b = (a \<noteq> NaN \<and> a = b)"

definition jne :: "jsnum \<Rightarrow> jsnum \<Rightarrow> bool" where
  "jne a b = (\<not> jeq a b)"

definition jle :: "jsnum \<Rightarrow> jsnum \<Rightarrow> bool" where
  "jle a b = (jlt a b \<or> jeq a b)"

definition jge :: "jsnum \<Rightarrow> jsnum \<Rightarrow> bool" where
  "jge a b = jle b a"

text \<open>\<^verbatim>\<open>Math.min\<close> and \<^verbatim>\<open>Math.max\<close> of two numbers: NaN as soon as one argument is NaN.\<close>

definition jmin :: "jsnum \<Rightarrow> jsnum \<Rightarrow> jsnum" where
  "jmin a b = (if a = NaN \<or> b = NaN then NaN else if jlt b a then b else a)"

definition jmax :: "jsnum \<Rightarrow> jsnum \<Rightarrow> jsnum" where
  "jmax a b = (if a = NaN \<or> b = NaN then NaN else if jlt a b then b else a)"

fun jabs :: "jsnum \<Rightarrow> jsnum" where
  "jabs (Fin x) = Fin \<bar>x\<bar>"
| "jabs PInf = PInf"
| "jabs NInf = PInf"
| "jabs NaN = NaN"

fun jsqrt :: "jsnum \<Rightarrow> jsnum" where
  "jsqrt (Fin x) = (if x < 0 then NaN else Fin (sqrt x))"
| "jsqrt PInf = PInf"
| "jsqrt NInf = NaN"
| "jsqrt NaN = NaN"

fun jlog :: "jsnum \<Rightarrow> jsnum" where
  "jlog (Fin x) = (if x < 0 then NaN else if x = 0 then NInf else Fin (ln x))"
| "jlog PInf = PInf"
| "jlog NInf = NaN"
| "jlog NaN = NaN"

fun jexp :: "jsnum \<Rightarrow> jsnum" where
  "jexp (Fin x) = Fin (exp x)"
| "jexp PInf = PInf"
| "jexp NInf = Fin 0"
| "jexp NaN = NaN"

text \<open>\<^verbatim>\<open>Math.floor\<close>, and \<^verbatim>\<open>Math.round\<close> (the nearest integer, a tie going up).\<close>

fun jfloor :: "jsnum \<Rightarrow> jsnum" where
  "jfloor (Fin x) = Fin (of_int \<lfloor>x\<rfloor>)"
| "jfloor a = a"

fun jround :: "jsnum \<Rightarrow> jsnum" where
  "jround (Fin x) = Fin (of_int \<lfloor>x + 1 / 2\<rfloor>)"
| "jround a = a"

text \<open>Truthiness of a number, as \<^verbatim>\<open>x || d\<close> reads it: 0 and NaN are falsy.\<close>

definition jtruthy :: "jsnum \<Rightarrow> bool" where
  "jtruthy a = (a \<noteq> NaN \<and> a \<noteq> Fin 0)"

definition jor :: "jsnum \<Rightarrow> jsnum \<Rightarrow> jsnum" where
  "jor a d = (if jtruthy a then a else d)"

text \<open>
  A table keyed by numbers (\<^verbatim>\<open>Record<number, T>\<close>) read at a number: the entry whose key
  is that number, \<^verbatim>\<open>undefined\<close> (here \<open>None\<close>) when there is none. \<open>or_default\<close> is
  \<^verbatim>\<open>table[k] || d\<close>.
\<close>

definition lookup_num :: "(real \<times> 'a) list \<Rightarrow> jsnum \<Rightarrow> 'a option" where
  "lookup_num tbl k = (case k of Fin r \<Rightarrow> map_of tbl r | _ \<Rightarrow> None)"

definition or_default :: "jsnum option \<Rightarrow> jsnum \<Rightarrow> jsnum" where
  "or_default v d = (case v of None \<Rightarrow> d | Some a \<Rightarrow> jor a d)"



section \<open>Statistics helpers (the simple-statistics package)\<close>

text \<open>
  Modelled from the spec: \<^verbatim>\<open>sum\<close>, \<^verbatim>\<open>mean\<close>, \<^verbatim>\<open>variance\<close>,
  \<^verbatim>\<open>standardDeviation\<close>, \<^verbatim>\<open>min\<close>, \<^verbatim>\<open>max\<close> and \<^verbatim>\<open>linearRegression\<close> are imported
  from the simple-statistics package, which is a dependency and not part of the sources.
  They are the textbook quantities the spec names: the arithmetic mean, the population
  variance (the squared deviations from the mean, divided by the number of points) and its
  square root, with the package's special case that the standard deviation of a single
  point is 0. The package throws on an empty list where a mean is needed; every call site
  modelled below passes a non-empty list. (The package adds up with a compensated
  summation, which in exact arithmetic is the plain sum of finite numbers.)
\<close>

definition sum_ss :: "jsnum list \<Rightarrow> jsnum" where
  "sum_ss xs = foldl jadd (Fin 0) xs"

definition mean :: "jsnum list \<Rightarrow> jsnum" where
  "mean xs = jdiv (sum_ss xs) (Fin (real (length xs)))"

definition variance :: "jsnum list \<Rightarrow> jsnum" where
  "variance xs =
     (let m = mean xs
      in jdiv (sum_ss (map (\<lambda>x. jmul (jsub x m) (jsub x m)) xs)) (Fin (real (length xs))))"

definition standardDeviation :: "jsnum list \<Rightarrow> jsnum" where
  "standardDeviation xs = (if length xs = 1 then Fin 0 else jsqrt (variance xs))"

definition min_ss :: "jsnum list \<Rightarrow> jsnum" where
  "min_ss xs = foldl (\<lambda>v x. if jlt x v then x else v) (hd xs) (tl xs)"

definition max_ss :: "jsnum list \<Rightarrow> jsnum" where
  "max_ss xs = foldl (\<lambda>v x. if jgt x v then x else v) (hd xs) (tl xs)"




section \<open>The time-series store (marketHistory)\<close>

text \<open>
  The module keeps one rolling window of price points per symbol in a module-level map.
  The map is passed explicitly: a function that reads the store takes it as its first
  argument, and \<open>addPrice\<close> returns the updated store. Timestamps are integer
  milliseconds.
\<close>

record PricePoint =
  price :: jsnum
  timestamp :: int
  confidence :: "jsnum option"

record AssetTimeSeries =
  symbol :: string
  prices :: "PricePoint list"
  maxWindowSize :: nat

type_synonym MarketHistory = "string \<Rightarrow> AssetTimeSeries option"

record SeriesStatistics =
  ss_symbol :: string
  ss_count :: nat
  ss_mean :: jsnum
  ss_variance :: jsnum
  ss_stdDev :: jsnum
  ss_min :: jsnum
  ss_max :: jsnum
  ss_range :: jsnum
  latestPrice :: jsnum
  latestTimestamp :: int
  totalReturn :: jsnum
  annualizedVolatility :: jsnum
  ss_maxDrawdown :: jsnum
  ss_currentDrawdown :: jsnum

definition DEFAULT_WINDOW_SIZE :: nat where
  "DEFAULT_WINDOW_SIZE = 50"

definition EXTENDED_WINDOW_SIZE :: nat where
  "EXTENDED_WINDOW_SIZE = 100"

definition initializeSeries :: "MarketHistory \<Rightarrow> string \<Rightarrow> nat \<Rightarrow> AssetTimeSeries \<times> MarketHistory" where
  "initializeSeries marketHistory symb windowSize =
     (let series = \<lparr>symbol = symb, prices = [], maxWindowSize = windowSize\<rparr>
      in (series, marketHistory(symb \<mapsto> series)))"

definition addPrice ::
  "MarketHistory \<Rightarrow> string \<Rightarrow> jsnum \<Rightarrow> int \<Rightarrow> jsnum option \<Rightarrow> AssetTimeSeries \<times> MarketHistory" where
  "addPrice marketHistory symb p ts conf =
     (let (series, mh) =
            (case marketHistory symb of
               None \<Rightarrow> initializeSeries marketHistory symb DEFAULT_WINDOW_SIZE
             | Some s \<Rightarrow> (s, marketHistory));
          pushed = prices series @ [\<lparr>price = p, timestamp = ts, confidence = conf\<rparr>];
          kept = (if length pushed > maxWindowSize series then tl pushed else pushed);
          series' = series\<lparr>prices := kept\<rparr>
      in (series', mh(symb \<mapsto> series')))"

definition getPriceArray :: "MarketHistory \<Rightarrow> string \<Rightarrow> jsnum list" where
  "getPriceArray marketHistory symb =
     (case marketHistory symb of None \<Rightarrow> [] | Some series \<Rightarrow> map price (prices series))"


text \<open>
  The loop \<^verbatim>\<open>for (i = 1; i < prices.length; i++) returns.push(Math.log(prices[i] / prices[i - 1]))\<close>,
  which the store and the risk engine each run on the price array.
\<close>

definition logReturns :: "jsnum list \<Rightarrow> jsnum list" where
  "logReturns ps = map (\<lambda>(prev, cur). jlog (jdiv cur prev)) (zip ps (tl ps))"

definition estimateDataFrequency :: "AssetTimeSeries \<Rightarrow> jsnum" where
  "estimateDataFrequency series =
     (if length (prices series) < 2 then Fin 1
      else
        let firstTime = timestamp (hd (prices series));
            lastTime = timestamp (last (prices series));
            timeSpanMs = lastTime - firstTime;
            timeSpanDays = jdiv (Fin (real_of_int timeSpanMs)) (Fin (1000 * 60 * 60 * 24))
        in if jle timeSpanDays (Fin 0) then Fin 1
           else jdiv (Fin (real (length (prices series)))) timeSpanDays)"

definition getVolatility :: "MarketHistory \<Rightarrow> string \<Rightarrow> jsnum" where
  "getVolatility marketHistory symb =
     (case marketHistory symb of
        None \<Rightarrow> Fin 0
      | Some series \<Rightarrow>
          if length (prices series) < 2 then Fin 0
          else
            let returns = logReturns (map price (prices series)) in
            if length returns < 2 then Fin 0
            else
              let returnStdDev = standardDeviation returns;
                  dataPointsPerDay = estimateDataFrequency series;
                  annualizationFactor = jsqrt (jmul (Fin 365) dataPointsPerDay)
              in jmul returnStdDev annualizationFactor)"

text \<open>
  One forward pass over the prices: the state is the running peak, the largest drawdown
  seen and the drawdown of the last price.
\<close>

definition drawdownStep :: "nat \<Rightarrow> jsnum \<times> jsnum \<times> jsnum \<Rightarrow> nat \<times> jsnum \<Rightarrow> jsnum \<times> jsnum \<times> jsnum" where
  "drawdownStep n st ip =
     (case (st, ip) of ((peak, maxDD, curDD), (i, p)) \<Rightarrow>
        let peak' = (if jgt p peak then p else peak);
            drawdown = jdiv (jsub peak' p) peak';
            maxDD' = (if jgt drawdown maxDD then drawdown else maxDD);
            curDD' = (if i = n - 1 then drawdown else curDD)
        in (peak', maxDD', curDD'))"

definition getDrawdown :: "MarketHistory \<Rightarrow> string \<Rightarrow> jsnum \<times> jsnum" where
  "getDrawdown marketHistory symb =
     (case marketHistory symb of
        None \<Rightarrow> (Fin 0, Fin 0)
      | Some series \<Rightarrow>
          if length (prices series) < 2 then (Fin 0, Fin 0)
          else
            let ps = map price (prices series);
                (peak, maxDD, curDD) =
                  foldl (drawdownStep (length ps)) (hd ps, Fin 0, Fin 0) (zip [0 ..< length ps] ps)
            in (maxDD, curDD))"

definition getStatistics :: "MarketHistory \<Rightarrow> string \<Rightarrow> SeriesStatistics option" where
  "getStatistics marketHistory symb =
     (case marketHistory symb of
        None \<Rightarrow> None
      | Some series \<Rightarrow>
          if length (prices series) < 2 then None
          else
            let ps = map price (prices series);
                timestamps = map timestamp (prices series);
                priceMin = min_ss ps;
                priceMax = max_ss ps;
                firstPrice = hd ps;
                lastPrice = last ps;
                totalReturn0 = jdiv (jsub lastPrice firstPrice) firstPrice;
                drawdown = getDrawdown marketHistory symb
            in Some \<lparr>ss_symbol = symb, ss_count = length ps, ss_mean = mean ps,
                     ss_variance = variance ps, ss_stdDev = standardDeviation ps,
                     ss_min = priceMin, ss_max = priceMax, ss_range = jsub priceMax priceMin,
                     latestPrice = lastPrice, latestTimestamp = last timestamps,
                     totalReturn = totalReturn0,
                     annualizedVolatility = getVolatility marketHistory symb,
                     ss_maxDrawdown = fst drawdown, ss_currentDrawdown = snd drawdown\<rparr>)"

section \<open>The risk metrics engine (riskMetrics)\<close>

record RiskMetrics =
  volatility :: jsnum
  volatilityDaily :: jsnum
  var95 :: jsnum
  var99 :: jsnum
  cvar95 :: jsnum
  cvar99 :: jsnum
  maxDrawdown :: jsnum
  currentDrawdown :: jsnum
  relativeUncertainty :: jsnum
  totalValue :: jsnum
  atRiskAmount :: jsnum


record VaRResult =
  varRelative :: jsnum
  varAbsolute :: jsnum

record CVaRResult =
  cvarRelative :: jsnum
  cvarAbsolute :: jsnum

record VolatilityResult =
  daily :: jsnum
  annualized :: jsnum
  weekly :: jsnum
  monthly :: jsnum


text \<open>
  \<^verbatim>\<open>[...returns].sort((a, b) => a - b)\<close>: \<open>a\<close> goes after \<open>b\<close> when the comparator's result
  is positive. On a list without NaN this is the ascending order. (With a NaN in the list the
  comparator is inconsistent and the order is left to the implementation; the insertion
  order below is then one possible outcome, and what is proved of it only uses that the
  result holds the same elements.)
\<close>

fun insert_js :: "jsnum \<Rightarrow> jsnum list \<Rightarrow> jsnum list" where
  "insert_js x [] = [x]"
| "insert_js x (y # ys) = (if jgt (jsub x y) (Fin 0) then y # insert_js x ys else x # y # ys)"

definition sort_js :: "jsnum list \<Rightarrow> jsnum list" where
  "sort_js xs = foldr insert_js xs []"

text \<open>
  Reading \<^verbatim>\<open>xs[i]\<close> for a number \<open>i\<close>: the element when \<open>i\<close> is an index of the
  array, \<^verbatim>\<open>undefined\<close> (here \<open>None\<close>) otherwise.
\<close>

definition nth_js :: "jsnum list \<Rightarrow> jsnum \<Rightarrow> jsnum option" where
  "nth_js xs i =
     (case i of
        Fin r \<Rightarrow>
          if 0 \<le> r \<and> r = of_int \<lfloor>r\<rfloor> \<and> nat \<lfloor>r\<rfloor> < length xs then Some (xs ! nat \<lfloor>r\<rfloor>)
          else None
      | _ \<Rightarrow> None)"

text \<open>\<^verbatim>\<open>Math.abs\<close> of an array read: \<^verbatim>\<open>Math.abs(undefined)\<close> is NaN.\<close>

definition abs_read :: "jsnum option \<Rightarrow> jsnum" where
  "abs_read v = (case v of None \<Rightarrow> NaN | Some x \<Rightarrow> jabs x)"

definition zScores :: "(real \<times> jsnum) list" where
  "zScores = [(0.8, Fin 0.842), (0.9, Fin 1.282), (0.95, Fin 1.645), (0.99, Fin 2.326),
              (0.999, Fin 3.090)]"

definition getZScore :: "jsnum \<Rightarrow> jsnum" where
  "getZScore confidence0 = or_default (lookup_num zScores confidence0) (Fin 1.645)"

definition calculateVaRHistorical :: "MarketHistory \<Rightarrow> string \<Rightarrow> jsnum \<Rightarrow> jsnum \<Rightarrow> VaRResult" where
  "calculateVaRHistorical marketHistory symb confidence0 positionValue =
     (let ps = getPriceArray marketHistory symb in
      if length ps < 10 then \<lparr>varRelative = Fin 0, varAbsolute = Fin 0\<rparr>
      else
        let returns = logReturns ps;
            sortedReturns = sort_js returns;
            percentileIndex =
              jfloor (jmul (jsub (Fin 1) confidence0) (Fin (real (length sortedReturns))));
            varReturn = nth_js sortedReturns (jmax (Fin 0) percentileIndex);
            varRelative0 = abs_read varReturn
        in \<lparr>varRelative = varRelative0, varAbsolute = jmul varRelative0 positionValue\<rparr>)"

definition calculateVaRParametric ::
  "MarketHistory \<Rightarrow> string \<Rightarrow> jsnum \<Rightarrow> jsnum \<Rightarrow> jsnum \<Rightarrow> VaRResult" where
  "calculateVaRParametric marketHistory symb confidence0 positionValue timeHorizon =
     (let ps = getPriceArray marketHistory symb in
      if length ps < 10 then \<lparr>varRelative = Fin 0, varAbsolute = Fin 0\<rparr>
      else
        let returns = logReturns ps;
            mu = mean returns;
            sigma = standardDeviation returns;
            zScore = getZScore confidence0;
            horizonScale = jsqrt timeHorizon;
            varReturn = jneg (jsub mu (jmul (jmul zScore sigma) horizonScale));
            varRelative0 = jmax (Fin 0) varReturn
        in \<lparr>varRelative = varRelative0, varAbsolute = jmul varRelative0 positionValue\<rparr>)"

definition calculateCVaR :: "MarketHistory \<Rightarrow> string \<Rightarrow> jsnum \<Rightarrow> jsnum \<Rightarrow> CVaRResult" where
  "calculateCVaR marketHistory symb confidence0 positionValue =
     (let ps = getPriceArray marketHistory symb in
      if length ps < 10 then \<lparr>cvarRelative = Fin 0, cvarAbsolute = Fin 0\<rparr>
      else
        let returns = logReturns ps;
            varRelative0 = varRelative (calculateVaRHistorical marketHistory symb confidence0 (Fin 1));
            varThreshold = jneg varRelative0;
            tailReturns = filter (\<lambda>r. jlt r varThreshold) returns
        in if length tailReturns = 0
           then \<lparr>cvarRelative = varRelative0, cvarAbsolute = jmul varRelative0 positionValue\<rparr>
           else
             let cvarReturn = mean tailReturns;
                 cvarRelative0 = jabs cvarReturn
             in \<lparr>cvarRelative = cvarRelative0, cvarAbsolute = jmul cvarRelative0 positionValue\<rparr>)"

definition calculateVolatility :: "MarketHistory \<Rightarrow> string \<Rightarrow> VolatilityResult" where
  "calculateVolatility marketHistory symb =
     (let ps = getPriceArray marketHistory symb in
      if length ps < 2 then \<lparr>daily = Fin 0, annualized = Fin 0, weekly = Fin 0, monthly = Fin 0\<rparr>
      else
        let returns = logReturns ps;
            dailyVol = standardDeviation returns
        in \<lparr>daily = dailyVol, annualized = jmul dailyVol (jsqrt (Fin 365)),
            weekly = jmul dailyVol (jsqrt (Fin 7)), monthly = jmul dailyVol (jsqrt (Fin 30))\<rparr>)"

definition calculateRiskMetrics :: "MarketHistory \<Rightarrow> string \<Rightarrow> jsnum \<Rightarrow> jsnum \<Rightarrow> RiskMetrics" where
  "calculateRiskMetrics marketHistory symb positionValue relativeUncertainty0 =
     (let stats = getStatistics marketHistory symb;
          vol = calculateVolatility marketHistory symb;
          v95 = calculateVaRParametric marketHistory symb (Fin 0.95) positionValue (Fin 1);
          v99 = calculateVaRParametric marketHistory symb (Fin 0.99) positionValue (Fin 1);
          c95 = calculateCVaR marketHistory symb (Fin 0.95) positionValue;
          c99 = calculateCVaR marketHistory symb (Fin 0.99) positionValue;
          drawdown =
            (case stats of
               Some st \<Rightarrow> (ss_maxDrawdown st, ss_currentDrawdown st)
             | None \<Rightarrow> (Fin 0, Fin 0))
      in \<lparr>volatility = annualized vol, volatilityDaily = daily vol,
          var95 = varRelative v95, var99 = varRelative v99,
          cvar95 = cvarRelative c95, cvar99 = cvarRelative c99,
          maxDrawdown = fst drawdown, currentDrawdown = snd drawdown,
          relativeUncertainty = relativeUncertainty0, totalValue = positionValue,
          atRiskAmount = varAbsolute v95\<rparr>)"



section \<open>The forecast engine (src/lib/forecastEngine.ts)\<close>

record ForecastResult =
  expectedValue :: jsnum
  lowerBound :: jsnum
  upperBound :: jsnum
  errorMargin :: jsnum
  confidenceLevel :: jsnum
  model :: string
  modelParams :: "(string \<times> jsnum) list"
  inputDataPoints :: nat
  forecastHorizon :: jsnum
  rSquared :: "jsnum option"
  rmse :: "jsnum option"

definition zTable :: "(real \<times> jsnum) list" where
  "zTable = [(0.8, Fin 1.282), (0.9, Fin 1.645), (0.95, Fin 1.960), (0.99, Fin 2.576),
             (0.999, Fin 3.291)]"

definition getZValue :: "jsnum \<Rightarrow> jsnum" where
  "getZValue confidence0 =
     (let level = jdiv (jround (jmul confidence0 (Fin 100))) (Fin 100)
      in or_default (lookup_num zTable level) (Fin 1.96))"






text \<open>
  Holt's linear method. One step of the level and trend recursion; the second pass of the
  source runs the same recursion and records the one-step-ahead residual before each step.
\<close>

definition holtStep :: "jsnum \<Rightarrow> jsnum \<Rightarrow> jsnum \<times> jsnum \<Rightarrow> jsnum \<Rightarrow> jsnum \<times> jsnum" where
  "holtStep alpha beta st p =
     (case st of (level, trend) \<Rightarrow>
        let prevLevel = level;
            level' = jadd (jmul alpha p) (jmul (jsub (Fin 1) alpha) (jadd level trend));
            trend' = jadd (jmul beta (jsub level' prevLevel)) (jmul (jsub (Fin 1) beta) trend)
        in (level', trend'))"

definition holtResidualStep ::
  "jsnum \<Rightarrow> jsnum \<Rightarrow> (jsnum \<times> jsnum) \<times> jsnum list \<Rightarrow> jsnum \<Rightarrow> (jsnum \<times> jsnum) \<times> jsnum list" where
  "holtResidualStep alpha beta st p =
     (case st of ((tempLevel, tempTrend), residuals) \<Rightarrow>
        let forecast = jadd tempLevel tempTrend;
            residual = jsub p forecast
        in (holtStep alpha beta (tempLevel, tempTrend) p, residuals @ [residual]))"

definition forecastExponentialSmoothing ::
  "MarketHistory \<Rightarrow> string \<Rightarrow> jsnum \<Rightarrow> jsnum \<Rightarrow> jsnum \<Rightarrow> jsnum \<Rightarrow> ForecastResult option" where
  "forecastExponentialSmoothing marketHistory symb horizon alpha beta confidence0 =
     (let ps = getPriceArray marketHistory symb in
      if length ps < 10 then None
      else
        let init = (ps ! 0, jsub (ps ! 1) (ps ! 0));
            (level, trend) = foldl (holtStep alpha beta) init (tl ps);
            expectedValue0 = jadd level (jmul horizon trend);
            residuals = snd (foldl (holtResidualStep alpha beta) (init, []) (tl ps));
            residualStdDev = standardDeviation residuals;
            zValue = getZValue confidence0;
            horizonScale = jsqrt horizon;
            marginOfError = jmul (jmul zValue residualStdDev) horizonScale
        in Some \<lparr>expectedValue = expectedValue0,
                 lowerBound = jmax (Fin 0) (jsub expectedValue0 marginOfError),
                 upperBound = jadd expectedValue0 marginOfError,
                 errorMargin = marginOfError,
                 confidenceLevel = confidence0,
                 model = ''exponential_smoothing'',
                 modelParams = [(''alpha'', alpha), (''beta'', beta), (''finalLevel'', level),
                                (''finalTrend'', trend), (''residualStdDev'', residualStdDev)],
                 inputDataPoints = length ps,
                 forecastHorizon = horizon,
                 rSquared = None,
                 rmse = Some (jsqrt (mean (map (\<lambda>r. jmul r r) residuals)))\<rparr>)"






section \<open>The cashflow forecast (src/lib/cashflowEngine.ts)\<close>

text \<open>
  An event carries its time in integer milliseconds and a signed amount. The clock reading
  \<^verbatim>\<open>Date.now()\<close> is the argument \<open>now\<close>; the number of lookback days sizes an array and
  is a natural number.
\<close>

record CashflowEvent =
  ev_timestamp :: int
  ev_amount :: jsnum
  ev_category :: "string option"
  ev_description :: "string option"

record CashflowForecastResult =
  cf_horizonDays :: jsnum
  cf_confidenceLevel :: jsnum
  startingBalance :: jsnum
  expectedEndingBalance :: jsnum
  cf_lowerBound :: jsnum
  cf_upperBound :: jsnum
  cf_errorMargin :: jsnum
  inputDays :: nat
  meanDailyNet :: jsnum
  stdDailyNet :: jsnum
  probabilityOfOverdraft :: jsnum
  assumptions :: "string list"

definition dayMs :: int where
  "dayMs = 24 * 60 * 60 * 1000"

text \<open>
  One event of the bucketing loop. An index below 0 (which only a window of 0 days gives)
  names no element of the array, and the array is unchanged.
\<close>

definition bucketStep :: "int \<Rightarrow> int \<Rightarrow> nat \<Rightarrow> jsnum list \<Rightarrow> CashflowEvent \<Rightarrow> jsnum list" where
  "bucketStep now start days buckets e =
     (if ev_timestamp e < start \<or> ev_timestamp e > now then buckets
      else
        let idx = min (int days - 1) (max 0 ((ev_timestamp e - start) div dayMs))
        in if 0 \<le> idx then buckets[nat idx := jadd (buckets ! nat idx) (ev_amount e)] else buckets)"

definition toDailyNetFlows :: "int \<Rightarrow> CashflowEvent list \<Rightarrow> nat \<Rightarrow> jsnum list" where
  "toDailyNetFlows now events days =
     (let start = now - int days * dayMs;
          buckets = replicate days (Fin 0)
      in foldl (bucketStep now start days) buckets events)"

definition cf_getZValue :: "jsnum \<Rightarrow> jsnum" where
  "cf_getZValue confidence0 =
     (if jge confidence0 (Fin 0.99) then Fin 2.576
      else if jge confidence0 (Fin 0.95) then Fin 1.96
      else if jge confidence0 (Fin 0.90) then Fin 1.645
      else Fin 1.28)"

definition normalCdf :: "jsnum \<Rightarrow> jsnum" where
  "normalCdf z =
     (let t = jdiv (Fin 1) (jadd (Fin 1) (jmul (Fin 0.2316419) (jabs z)));
          d = jmul (Fin 0.3989423) (jexp (jdiv (jmul (jneg z) z) (Fin 2)));
          p = jmul (jmul d t)
                (jadd (Fin 0.3193815) (jmul t
                  (jadd (Fin (- 0.3565638)) (jmul t
                    (jadd (Fin 1.781478) (jmul t
                      (jadd (Fin (- 1.821256)) (jmul t (Fin 1.330274)))))))))
      in if jgt z (Fin 0) then jsub (Fin 1) p else p)"

definition forecastCashflow ::
  "int \<Rightarrow> jsnum \<Rightarrow> CashflowEvent list \<Rightarrow> jsnum \<Rightarrow> nat \<Rightarrow> jsnum \<Rightarrow> CashflowForecastResult option" where
  "forecastCashflow now startingBalance0 events horizonDays lookbackDays confidence0 =
     (let dailyFlows = toDailyNetFlows now events lookbackDays;
          nonZero = list_ex (\<lambda>v. jne v (Fin 0)) dailyFlows in
      if \<not> nonZero then None
      else
        let mu = mean dailyFlows;
            sigma = (if length dailyFlows \<ge> 2 then standardDeviation dailyFlows else Fin 0);
            expectedEnding = jadd startingBalance0 (jmul horizonDays mu);
            z = cf_getZValue confidence0;
            err = jmul (jmul z sigma) (jsqrt horizonDays);
            denom = jmul sigma (jsqrt horizonDays);
            pOverdraft =
              (if jgt denom (Fin 0) then normalCdf (jdiv (jsub (Fin 0) expectedEnding) denom)
               else if jlt expectedEnding (Fin 0) then Fin 1 else Fin 0)
        in Some \<lparr>cf_horizonDays = horizonDays,
                 cf_confidenceLevel = confidence0,
                 startingBalance = startingBalance0,
                 expectedEndingBalance = expectedEnding,
                 cf_lowerBound = jsub expectedEnding err,
                 cf_upperBound = jadd expectedEnding err,
                 cf_errorMargin = err,
                 inputDays = lookbackDays,
                 meanDailyNet = mu,
                 stdDailyNet = sigma,
                 probabilityOfOverdraft = pOverdraft,
                 assumptions =
                   [''Daily net cashflow is approximately stationary over the lookback window.'',
                    ''Aggregate net flow uncertainty scales with sqrt(time).'',
                    ''Overdraft probability assumes a normal distribution for aggregate net flow.'']\<rparr>)"

section \<open>The portfolio allocator (portfolioOptimizer)\<close>

text \<open>
  The plan's \<^verbatim>\<open>reasoning\<close> (display strings rendered from the inputs and the chosen plan
  after the search) is left out.
\<close>

record AllocationInputs =
  totalUSD :: jsnum
  stableEarnApy :: jsnum
  solStakingApy :: jsnum
  solRisk :: RiskMetrics
  maxVar95LossPct :: jsnum
  maxUncertainty :: jsnum
  currentRelativeUncertainty :: jsnum
  horizonDays :: jsnum
  stepPct :: "jsnum option"

record Allocations =
  CASH :: jsnum
  STABLE_EARN :: jsnum
  SOL_STAKING :: jsnum

record AllocationPlan =
  plan_horizonDays :: jsnum
  allocations :: Allocations
  expectedReturnUSD :: jsnum
  worstCaseLossUSD :: jsnum
  plan_worstCaseLossPct :: jsnum
  objectiveScore :: jsnum

definition expectedReturnOverHorizon :: "jsnum \<Rightarrow> jsnum \<Rightarrow> jsnum \<Rightarrow> jsnum" where
  "expectedReturnOverHorizon usd apy days =
     (let dailyRate = jdiv apy (Fin 365) in jmul (jmul usd dailyRate) days)"

definition worstCaseLossSol :: "jsnum \<Rightarrow> RiskMetrics \<Rightarrow> jsnum" where
  "worstCaseLossSol solUSD risk = (let lossFrac = jabs (cvar95 risk) in jmul solUSD lossFrac)"

text \<open>
  The step of the search: \<^verbatim>\<open>Math.max(1, Math.min(20, input.stepPct ?? 5)) / 100\<close>. It is
  NaN or a finite number between 0.01 and 0.2.
\<close>

definition stepOf :: "jsnum option \<Rightarrow> jsnum" where
  "stepOf sp =
     (let stepPct0 = jmax (Fin 1) (jmin (Fin 20) (case sp of None \<Rightarrow> Fin 5 | Some v \<Rightarrow> v))
      in jdiv stepPct0 (Fin 100))"

text \<open>\<^verbatim>\<open>+x.toFixed(4)\<close> of a finite number: the nearest multiple of 0.0001, a tie going up.\<close>

definition toFixed4 :: "real \<Rightarrow> real" where
  "toFixed4 x = of_int \<lfloor>x * 10000 + 1 / 2\<rfloor> / 10000"

text \<open>
  The loop \<^verbatim>\<open>for (let x = 0; x <= 1 + 1e-9; x += step) candidates.push(...)\<close>, from the
  current \<open>x\<close>; \<open>searchLimit\<close> is its bound \<^verbatim>\<open>1 + 1e-9\<close>. Inside the loop \<open>x\<close> is finite; when the step is NaN, \<open>x\<close> becomes NaN
  and the loop test fails. The step is recomputed from the input so that the recursion is
  seen to end.
\<close>

definition searchLimit :: real where
  "searchLimit = 1 + 1 / 10 ^ 9"

function candidates_from :: "jsnum option \<Rightarrow> real \<Rightarrow> real list" where
  "candidates_from sp x =
     (if x \<le> searchLimit
      then min 1 (max 0 (toFixed4 x)) #
           (case stepOf sp of Fin s \<Rightarrow> candidates_from sp (x + s) | _ \<Rightarrow> [])
      else [])"
  by pat_completeness auto
termination
proof (relation "measure (\<lambda>(sp, x). if x \<le> searchLimit then nat \<lfloor>(searchLimit - x) * 100\<rfloor> + 1 else 0)")
  show "wf (measure (\<lambda>(sp, x). if x \<le> searchLimit then nat \<lfloor>(searchLimit - x) * 100\<rfloor> + 1 else 0))"
    by simp
next
  fix sp :: "jsnum option" and x s :: real
  assume x: "x \<le> searchLimit" and st: "stepOf sp = Fin s"
  have s: "1 / 100 \<le> s"
  proof (cases sp)
    case None
    with st show ?thesis by (auto simp: stepOf_def jmax_def jmin_def)
  next
    case (Some v)
    with st show ?thesis
      by (cases v) (auto simp: stepOf_def jmax_def jmin_def split: if_splits)
  qed
  have "(searchLimit - (x + s)) * 100 \<le> (searchLimit - x) * 100 - 1"
    using s by (simp add: algebra_simps)
  then have le: "\<lfloor>(searchLimit - (x + s)) * 100\<rfloor> \<le> \<lfloor>(searchLimit - x) * 100\<rfloor> - 1"
    by (metis floor_mono floor_diff_one)
  have nn: "0 \<le> \<lfloor>(searchLimit - x) * 100\<rfloor>"
    using x by simp
  define a where "a = \<lfloor>(searchLimit - (x + s)) * 100\<rfloor>"
  define b where "b = \<lfloor>(searchLimit - x) * 100\<rfloor>"
  have "(if x + s \<le> searchLimit then nat a + 1 else 0) < nat b + 1"
  proof (cases "x + s \<le> searchLimit")
    case True
    then have "0 \<le> a" by (simp add: a_def)
    with le True show ?thesis unfolding a_def [symmetric] b_def [symmetric] by simp
  next
    case False
    then show ?thesis by simp
  qed
  then show "((sp, x + s), (sp, x)) \<in> measure (\<lambda>(sp, x). if x \<le> searchLimit then nat \<lfloor>(searchLimit - x) * 100\<rfloor> + 1 else 0)"
    using x unfolding a_def b_def in_measure by (simp only: prod.case if_True)
qed

declare candidates_from.simps [simp del]

definition candidates :: "jsnum option \<Rightarrow> jsnum list" where
  "candidates sp = map Fin (candidates_from sp 0)"

text \<open>
  A \<^verbatim>\<open>ReferenceError\<close> names the identifier that is not bound. \<open>resolve\<close> looks an
  identifier up in the bindings in scope. \<open>forEach\<close> is a \<^verbatim>\<open>for ... of\<close> loop whose body
  may throw: the first error ends the loop and is the result.
\<close>

datatype error = ReferenceError string

definition resolve :: "(string \<times> jsnum) list \<Rightarrow> string \<Rightarrow> error + jsnum" where
  "resolve scope name =
     (case map_of scope name of Some v \<Rightarrow> Inr v | None \<Rightarrow> Inl (ReferenceError name))"

fun forEach :: "('s \<Rightarrow> 'a \<Rightarrow> error + 's) \<Rightarrow> 's \<Rightarrow> 'a list \<Rightarrow> error + 's" where
  "forEach body s [] = Inr s"
| "forEach body s (x # xs) =
     (case body s x of Inl e \<Rightarrow> Inl e | Inr s' \<Rightarrow> forEach body s' xs)"

text \<open>
  The body of the inner loop for one pair of candidates: the plan replaces the best one so
  far when there is none yet or its score is strictly greater. The plan is an object literal
  with the shorthand property \<^verbatim>\<open>worstCaseLossPct\<close>, which reads the identifier of that
  name. \<open>scope\<close> lists the numeric bindings of the loop body; the other bindings in scope
  (\<^verbatim>\<open>input\<close>, \<^verbatim>\<open>stepPct\<close>, \<^verbatim>\<open>step\<close>, \<^verbatim>\<open>uncertaintyTooHigh\<close>, \<^verbatim>\<open>best\<close>,
  \<^verbatim>\<open>candidates\<close>, \<^verbatim>\<open>plan\<close> and the module's four functions) have other names, and the
  module imports a type only. The loss percentage is bound as \<^verbatim>\<open>worstLossPct\<close>.
\<close>

definition considerPlan ::
  "AllocationInputs \<Rightarrow> jsnum \<Rightarrow> AllocationPlan option \<Rightarrow> jsnum \<Rightarrow> error + AllocationPlan option" where
  "considerPlan input solPct best stablePct =
     (let cashPct = jsub (jsub (Fin 1) solPct) stablePct in
      if jlt cashPct (Fin (- (1 / 10 ^ 9))) then Inr best
      else
        let cash = jmax (Fin 0) cashPct;
            solUSD = jmul (totalUSD input) solPct;
            varLossPct = jabs (var95 (solRisk input));
            varLossUSD = jmul solUSD varLossPct;
            maxAllowedVarUSD = jmul solUSD (maxVar95LossPct input)
        in if jgt varLossUSD (jadd maxAllowedVarUSD (Fin (1 / 10 ^ 9))) then Inr best
           else
             let expectedStable =
                   expectedReturnOverHorizon (jmul (totalUSD input) stablePct) (stableEarnApy input)
                     (horizonDays input);
                 expectedSol = expectedReturnOverHorizon solUSD (solStakingApy input) (horizonDays input);
                 expectedCash = Fin 0;
                 expectedReturn = jadd (jadd expectedStable expectedSol) expectedCash;
                 worstLoss = worstCaseLossSol solUSD (solRisk input);
                 worstLossPct =
                   (if jgt (totalUSD input) (Fin 0) then jdiv worstLoss (totalUSD input) else Fin 0);
                 lambda = Fin 0.35;
                 score = jsub expectedReturn (jmul lambda worstLoss);
                 scope =
                   [(''solPct'', solPct), (''stablePct'', stablePct), (''cashPct'', cashPct),
                    (''cash'', cash), (''solUSD'', solUSD), (''varLossPct'', varLossPct),
                    (''varLossUSD'', varLossUSD), (''maxAllowedVarUSD'', maxAllowedVarUSD),
                    (''expectedStable'', expectedStable), (''expectedSol'', expectedSol),
                    (''expectedCash'', expectedCash), (''expectedReturn'', expectedReturn),
                    (''worstLoss'', worstLoss), (''worstLossPct'', worstLossPct),
                    (''lambda'', lambda), (''score'', score)]
             in case resolve scope ''worstCaseLossPct'' of
                  Inl e \<Rightarrow> Inl e
                | Inr worstCaseLossPct \<Rightarrow>
                    let plan = \<lparr>plan_horizonDays = horizonDays input,
                                allocations =
                                  \<lparr>CASH = cash, STABLE_EARN = stablePct, SOL_STAKING = solPct\<rparr>,
                                expectedReturnUSD = expectedReturn,
                                worstCaseLossUSD = worstLoss,
                                plan_worstCaseLossPct = worstCaseLossPct,
                                objectiveScore = score\<rparr>
                    in Inr (case best of
                              None \<Rightarrow> Some plan
                            | Some b \<Rightarrow>
                                if jgt (objectiveScore plan) (objectiveScore b) then Some plan
                                else best))"

definition searchSol ::
  "AllocationInputs \<Rightarrow> bool \<Rightarrow> jsnum list \<Rightarrow> AllocationPlan option \<Rightarrow> jsnum \<Rightarrow>
     error + AllocationPlan option" where
  "searchSol input uncertaintyTooHigh cands best solPct =
     (if uncertaintyTooHigh \<and> jgt solPct (Fin 0) then Inr best
      else forEach (considerPlan input solPct) best cands)"

definition optimizeAllocation :: "AllocationInputs \<Rightarrow> error + AllocationPlan" where
  "optimizeAllocation input =
     (let uncertaintyTooHigh = jgt (currentRelativeUncertainty input) (maxUncertainty input);
          cands = candidates (stepPct input)
      in case forEach (searchSol input uncertaintyTooHigh cands) None cands of
           Inl e \<Rightarrow> Inl e
         | Inr best \<Rightarrow>
             Inr (case best of
                    Some plan \<Rightarrow> plan
                  | None \<Rightarrow>
                      \<lparr>plan_horizonDays = horizonDays input,
                       allocations = \<lparr>CASH = Fin 0, STABLE_EARN = Fin 1, SOL_STAKING = Fin 0\<rparr>,
                       expectedReturnUSD =
                         expectedReturnOverHorizon (totalUSD input) (stableEarnApy input)
                           (horizonDays input),
                       worstCaseLossUSD = Fin 0,
                       plan_worstCaseLossPct = Fin 0,
                       objectiveScore = Fin 0\<rparr>))"

section \<open>The Decision Engine (src/lib/decisionEngine.ts)\<close>

text \<open>
  The value objects the engine consumes. \<^verbatim>\<open>ForecastResult\<close> is the forecast engine's
  result type and \<^verbatim>\<open>RiskMetrics\<close> the risk engine's; of \<^verbatim>\<open>ProcessedPriceData\<close> the
  engine reads the staleness flag and the relative uncertainty.
\<close>

record ProcessedPriceData =
  pd_price :: jsnum
  pd_confidence :: jsnum
  pd_relativeUncertainty :: jsnum
  pd_isStale :: bool
  pd_isValid :: bool

datatype DecisionType = hold | reduce_exposure | increase_stable | take_profit | add_collateral

datatype Urgency = low | medium | high | critical

record Justification =
  forecastExpected :: jsnum
  forecastLower :: jsnum
  forecastUpper :: jsnum
  j_volatility :: jsnum
  j_var95 :: jsnum
  j_maxDrawdown :: jsnum
  dataQuality :: jsnum

record RiskAssessment =
  worstCaseLoss :: jsnum
  worstCaseLossPct :: jsnum
  probabilityOfLoss :: jsnum
  recommendedMaxPosition :: jsnum

record SuggestedAction =
  action_type :: string
  amount :: jsnum
  targetAsset :: "string option"

record Alternative =
  alt_type :: DecisionType
  alt_description :: string
  alt_confidenceScore :: jsnum

text \<open>
  The recommendation. The rendered texts (\<^verbatim>\<open>description\<close> and the action's
  \<^verbatim>\<open>reasoning\<close>, which format numbers for display) are left out; \<^verbatim>\<open>generatedAt\<close> is
  the clock reading \<^verbatim>\<open>Date.now()\<close>, passed in.
\<close>

record DecisionRecommendation =
  rec_type :: DecisionType
  title :: string
  confidenceScore :: jsnum
  urgency :: Urgency
  justification :: Justification
  riskAssessment :: RiskAssessment
  suggestedAction :: SuggestedAction
  alternatives :: "Alternative list"
  generatedAt :: int

definition determineDecisionType :: "ForecastResult \<Rightarrow> RiskMetrics \<Rightarrow> jsnum \<Rightarrow> DecisionType" where
  "determineDecisionType forecast risk positionValue =
     (if jgt (volatility risk) (Fin 0.5) \<and>
         jlt (expectedValue forecast) (jmul (lowerBound forecast) (Fin 1.1))
      then reduce_exposure
      else if jgt (var95 risk) (Fin 0.1) then add_collateral
      else if jgt (currentDrawdown risk) (Fin 0.15) then reduce_exposure
      else if jgt (relativeUncertainty risk) (Fin 0.02) then increase_stable
      else if jgt (expectedValue forecast) (jmul (lowerBound forecast) (Fin 1.05)) \<and>
              jlt (var95 risk) (Fin 0.05)
      then take_profit
      else hold)"

definition normalCDF :: "jsnum \<Rightarrow> jsnum" where
  "normalCDF x0 =
     (let a1 = Fin 0.254829592; a2 = Fin (- 0.284496736); a3 = Fin 1.421413741;
          a4 = Fin (- 1.453152027); a5 = Fin 1.061405429; p = Fin 0.3275911;
          sign = (if jlt x0 (Fin 0) then Fin (- 1) else Fin 1);
          x = jdiv (jabs x0) (jsqrt (Fin 2));
          t = jdiv (Fin 1) (jadd (Fin 1) (jmul p x));
          y = jsub (Fin 1)
                (jmul (jmul (jadd (jmul (jadd (jmul (jadd (jmul (jadd (jmul a5 t) a4) t) a3) t) a2) t) a1) t)
                   (jexp (jmul (jneg x) x)))
      in jmul (Fin 0.5) (jadd (Fin 1) (jmul sign y)))"

definition calculateProbabilityOfLoss :: "ForecastResult \<Rightarrow> jsnum \<Rightarrow> jsnum" where
  "calculateProbabilityOfLoss forecast positionValue =
     (if jeq positionValue (Fin 0) then Fin 0
      else let sigma = jdiv (errorMargin forecast) (Fin 1.96) in
        if jeq sigma (Fin 0) then (if jlt (expectedValue forecast) (Fin 0) then Fin 1 else Fin 0)
        else let z = jdiv (jsub (Fin 0) (expectedValue forecast)) sigma in normalCDF z)"

definition calculateDataQuality :: "ForecastResult \<Rightarrow> RiskMetrics \<Rightarrow> ProcessedPriceData \<Rightarrow> jsnum" where
  "calculateDataQuality forecast risk priceData =
     (let score0 = Fin 100;
          score1 = (if pd_isStale priceData then jsub score0 (Fin 30) else score0);
          score2 = jsub score1 (jmin (Fin 30) (jmul (pd_relativeUncertainty priceData) (Fin 3000)));
          score3 = jsub score2 (jmin (Fin 20) (jmul (volatility risk) (Fin 40)));
          score4 = (if inputDataPoints forecast < 20 then jsub score3 (Fin 20) else score3)
      in jmax (Fin 0) score4)"

definition determineUrgency :: "RiskMetrics \<Rightarrow> jsnum \<Rightarrow> Urgency" where
  "determineUrgency risk probLoss =
     (if jgt (var95 risk) (Fin 0.15) \<or> jgt probLoss (Fin 0.3) then critical
      else if jgt (var95 risk) (Fin 0.1) \<or> jgt probLoss (Fin 0.2) then high
      else if jgt (var95 risk) (Fin 0.05) \<or> jgt probLoss (Fin 0.1) then medium
      else low)"

definition calculateConfidenceScore :: "jsnum \<Rightarrow> ForecastResult \<Rightarrow> RiskMetrics \<Rightarrow> jsnum" where
  "calculateConfidenceScore dataQuality0 forecast risk =
     (let errorPct = jdiv (errorMargin forecast) (expectedValue forecast);
          score1 = jsub dataQuality0 (jmin (Fin 20) (jmul errorPct (Fin 100)));
          score2 = jsub score1 (jmin (Fin 20) (jmul (volatility risk) (Fin 40)))
      in jmax (Fin 0) (jmin (Fin 100) (jround score2)))"

definition buildSuggestedAction ::
  "DecisionType \<Rightarrow> jsnum \<Rightarrow> RiskMetrics \<Rightarrow> ForecastResult \<Rightarrow> SuggestedAction" where
  "buildSuggestedAction ty positionValue risk forecast =
     (case ty of
        reduce_exposure \<Rightarrow>
          \<lparr>action_type = ''sell'', amount = jmul positionValue (Fin 0.2), targetAsset = None\<rparr>
      | increase_stable \<Rightarrow>
          \<lparr>action_type = ''swap'', amount = jmul positionValue (Fin 0.3), targetAsset = Some ''USDC''\<rparr>
      | add_collateral \<Rightarrow>
          \<lparr>action_type = ''deposit'', amount = jmul (jmul positionValue (var95 risk)) (Fin 1.5),
           targetAsset = None\<rparr>
      | take_profit \<Rightarrow>
          \<lparr>action_type = ''sell'', amount = jmul positionValue (Fin 0.1), targetAsset = None\<rparr>
      | hold \<Rightarrow>
          \<lparr>action_type = ''hold'', amount = Fin 0, targetAsset = None\<rparr>)"

definition generateAlternatives ::
  "DecisionType \<Rightarrow> ForecastResult \<Rightarrow> RiskMetrics \<Rightarrow> jsnum \<Rightarrow> Alternative list" where
  "generateAlternatives currentType forecast risk positionValue =
     (if currentType \<noteq> hold
      then [\<lparr>alt_type = hold, alt_description = ''Maintain current position and monitor'',
             alt_confidenceScore = Fin 60\<rparr>]
      else []) @
     (if currentType \<noteq> reduce_exposure \<and> jgt (var95 risk) (Fin 0.05)
      then [\<lparr>alt_type = reduce_exposure, alt_description = ''Reduce position size by 10%'',
             alt_confidenceScore = Fin 70\<rparr>]
      else []) @
     (if currentType \<noteq> increase_stable \<and> jgt (volatility risk) (Fin 0.3)
      then [\<lparr>alt_type = increase_stable, alt_description = ''Convert 50% to USDC'',
             alt_confidenceScore = Fin 65\<rparr>]
      else [])"

definition getDecisionTitle :: "DecisionType \<Rightarrow> string" where
  "getDecisionTitle ty =
     (case ty of
        hold \<Rightarrow> ''Hold Position''
      | reduce_exposure \<Rightarrow> ''Reduce Exposure''
      | increase_stable \<Rightarrow> ''Increase Stablecoin Allocation''
      | take_profit \<Rightarrow> ''Take Partial Profits''
      | add_collateral \<Rightarrow> ''Add Collateral'')"

definition generateDecision ::
  "int \<Rightarrow> string \<Rightarrow> ForecastResult \<Rightarrow> RiskMetrics \<Rightarrow> jsnum \<Rightarrow> ProcessedPriceData
     \<Rightarrow> DecisionRecommendation" where
  "generateDecision now symb forecast risk positionValue priceData =
     (let dataQuality0 = calculateDataQuality forecast risk priceData;
          decisionType = determineDecisionType forecast risk positionValue;
          probLoss = calculateProbabilityOfLoss forecast positionValue;
          worstCaseLoss0 = jmul positionValue (cvar95 risk);
          worstCaseLossPct0 = cvar95 risk;
          maxAcceptableLoss = jmul positionValue (Fin 0.05);
          recommendedMaxPosition0 = jdiv maxAcceptableLoss (var95 risk);
          justification0 =
            \<lparr>forecastExpected = expectedValue forecast, forecastLower = lowerBound forecast,
             forecastUpper = upperBound forecast, j_volatility = volatility risk,
             j_var95 = var95 risk, j_maxDrawdown = maxDrawdown risk, dataQuality = dataQuality0\<rparr>;
          urgency0 = determineUrgency risk probLoss;
          confidenceScore0 = calculateConfidenceScore dataQuality0 forecast risk;
          suggestedAction0 = buildSuggestedAction decisionType positionValue risk forecast;
          alternatives0 = generateAlternatives decisionType forecast risk positionValue
      in \<lparr>rec_type = decisionType, title = getDecisionTitle decisionType,
          confidenceScore = confidenceScore0, urgency = urgency0, justification = justification0,
          riskAssessment =
            \<lparr>worstCaseLoss = worstCaseLoss0, worstCaseLossPct = worstCaseLossPct0,
             probabilityOfLoss = probLoss, recommendedMaxPosition = recommendedMaxPosition0\<rparr>,
          suggestedAction = suggestedAction0, alternatives = alternatives0,
          generatedAt = now\<rparr>)"

text \<open>
  The decision rules in the words of the spec, for comparison with \<open>determineDecisionType\<close>:
  the first matching rule wins, in this order.
\<close>

definition decisionRules_spec :: "jsnum \<Rightarrow> jsnum \<Rightarrow> jsnum \<Rightarrow> jsnum \<Rightarrow> jsnum \<Rightarrow> jsnum \<Rightarrow> DecisionType" where
  "decisionRules_spec vol expected lower v95 drawdown uncertainty =
     (if jgt vol (Fin 0.5) \<and> jlt expected (jmul (Fin 1.1) lower) then reduce_exposure
      else if jgt v95 (Fin 0.10) then add_collateral
      else if jgt drawdown (Fin 0.15) then reduce_exposure
      else if jgt uncertainty (Fin 0.02) then increase_stable
      else if jgt expected (jmul (Fin 1.05) lower) \<and> jlt v95 (Fin 0.05) then take_profit
      else hold)"

section \<open>Helper definitions and example inputs\<close>

text \<open>The mean and the population variance of a list of reals.\<close>

definition real_mean :: "real list \<Rightarrow> real" where
  "real_mean xs = sum_list xs / real (length xs)"

definition real_variance :: "real list \<Rightarrow> real" where
  "real_variance xs = sum_list (map (\<lambda>x. (x - real_mean xs) * (x - real_mean xs)) xs) / real (length xs)"

text \<open>Example inputs of the Decision Engine.\<close>

definition F1 :: ForecastResult where
  "F1 = \<lparr>expectedValue = Fin 100, lowerBound = Fin 95, upperBound = Fin 105, errorMargin = Fin 5,
         confidenceLevel = Fin 0.95, model = ''ensemble'', modelParams = [], inputDataPoints = 30,
         forecastHorizon = Fin 7, rSquared = None, rmse = Some (Fin 1)\<rparr>"

definition R1 :: RiskMetrics where
  "R1 = \<lparr>volatility = Fin 0.6, volatilityDaily = Fin 0.03, var95 = Fin 0.2, var99 = Fin 0.3,
         cvar95 = Fin 0.25, cvar99 = Fin 0.35, maxDrawdown = Fin 0.4, currentDrawdown = Fin 0.3,
         relativeUncertainty = Fin 0.05, totalValue = Fin 1000, atRiskAmount = Fin 200\<rparr>"

definition F2 :: ForecastResult where
  "F2 = \<lparr>expectedValue = Fin (- 10), lowerBound = Fin (- 10), upperBound = Fin (- 10),
         errorMargin = Fin 0, confidenceLevel = Fin 0.95, model = ''exponential_smoothing'',
         modelParams = [], inputDataPoints = 30, forecastHorizon = Fin 7, rSquared = None,
         rmse = Some (Fin 0)\<rparr>"

definition R2 :: RiskMetrics where
  "R2 = \<lparr>volatility = Fin 0, volatilityDaily = Fin 0, var95 = Fin 0, var99 = Fin 0,
         cvar95 = Fin 0, cvar99 = Fin 0, maxDrawdown = Fin 0, currentDrawdown = Fin 0,
         relativeUncertainty = Fin 0, totalValue = Fin 0, atRiskAmount = Fin 0\<rparr>"

definition PD1 :: ProcessedPriceData where
  "PD1 = \<lparr>pd_price = Fin 100, pd_confidence = Fin 0.05, pd_relativeUncertainty = Fin 0.0005,
          pd_isStale = False, pd_isValid = True\<rparr>"

text \<open>
  An allocator input with the safety gate triggered (relative uncertainty 0.02 against a
  ceiling of 0.01).
\<close>

definition A1 :: AllocationInputs where
  "A1 = \<lparr>totalUSD = Fin 10000, stableEarnApy = Fin 0.06, solStakingApy = Fin 0.07,
         solRisk = R1, maxVar95LossPct = Fin 0.10, maxUncertainty = Fin 0.01,
         currentRelativeUncertainty = Fin 0.02, horizonDays = Fin 7, stepPct = None\<rparr>"

text \<open>
  The cashflow scenario: the clock stands at the end of day 30, and each of the 30 days of
  the lookback window holds one event of \<open>-20\<close>, at noon.
\<close>

definition cfNow :: int where
  "cfNow = 30 * dayMs"

definition cfEvents :: "CashflowEvent list" where
  "cfEvents = map (\<lambda>i. \<lparr>ev_timestamp = int i * dayMs + 43200000, ev_amount = Fin (- 20),
                           ev_category = None, ev_description = None\<rparr>) [0 ..< 30]"

text \<open>
  A store holding one series, of the given finite prices at one point per day, and a forecast
  whose expected value and error margin are both 0 (what a smoothing forecast of an all-zero
  price history is).
\<close>

definition seriesOf :: "string \<Rightarrow> real list \<Rightarrow> AssetTimeSeries" where
  "seriesOf s ps =
     \<lparr>symbol = s,
      prices = map (\<lambda>(i, p). \<lparr>price = Fin p, timestamp = int i * 86400000, confidence = None\<rparr>)
                 (zip [0 ..< length ps] ps),
      maxWindowSize = 50\<rparr>"

definition storeOf :: "string \<Rightarrow> real list \<Rightarrow> MarketHistory" where
  "storeOf s ps = Map.empty(s \<mapsto> seriesOf s ps)"

definition F0 :: ForecastResult where
  "F0 = \<lparr>expectedValue = Fin 0, lowerBound = Fin 0, upperBound = Fin 0,
         errorMargin = Fin 0, confidenceLevel = Fin 0.95, model = ''exponential_smoothing'',
         modelParams = [], inputDataPoints = 30, forecastHorizon = Fin 7, rSquared = None,
         rmse = Some (Fin 0)\<rparr>"










definition zeroPrices :: "real list" where
  "zeroPrices = [0, 0, 0, 0, 0, 0, 0, 0, 0, 0]"




section \<open>Basic facts about numbers\<close>

lemma jlt_irrefl [simp]: "\<not> jlt a a"
  by (cases a) simp_all

lemma jle_Fin [simp]: "jle (Fin x) (Fin y) = (x \<le> y)"
  by (auto simp: jle_def jeq_def)

lemma jgt_Fin [simp]: "jgt (Fin x) (Fin y) = (y < x)"
  by (simp add: jgt_def)

lemma jge_Fin [simp]: "jge (Fin x) (Fin y) = (y \<le> x)"
  by (simp add: jge_def)

lemma jsub_Fin [simp]: "jsub (Fin x) (Fin y) = Fin (x - y)"
  by (simp add: jsub_def)

lemma jmin_Fin [simp]: "jmin (Fin x) (Fin y) = Fin (min x y)"
  by (simp add: jmin_def min_def)

lemma jmax_Fin [simp]: "jmax (Fin x) (Fin y) = Fin (max x y)"
  by (simp add: jmax_def max_def)

lemma jmul_commute: "jmul a b = jmul b a"
  by (cases a; cases b) (simp_all add: mult.commute)

lemma jadd_NaN_right [simp]: "jadd a NaN = NaN"
  by (cases a) simp_all

lemma jsub_NaN [simp]: "jsub a NaN = NaN" "jsub NaN b = NaN"
  by (simp_all add: jsub_def)

lemma jmul_NaN_right [simp]: "jmul a NaN = NaN"
  by (cases a) simp_all

lemma jdiv_NaN_right [simp]: "jdiv a NaN = NaN"
  by (cases a) simp_all

lemma jlt_NaN_right [simp]: "\<not> jlt a NaN"
  by (cases a) simp_all

lemma jgt_NaN [simp]: "\<not> jgt a NaN" "\<not> jgt NaN b"
  by (simp_all add: jgt_def)

lemma jle_NaN [simp]: "\<not> jle a NaN" "\<not> jle NaN b"
  by (auto simp: jle_def jeq_def)

lemma jmin_NaN [simp]: "jmin a NaN = NaN" "jmin NaN b = NaN"
  by (simp_all add: jmin_def)

lemma jmax_NaN [simp]: "jmax a NaN = NaN" "jmax NaN b = NaN"
  by (simp_all add: jmax_def)

lemma jadd_zero_left [simp]: "jadd (Fin 0) a = a"
  by (cases a) simp_all

lemma jadd_zero_right [simp]: "jadd a (Fin 0) = a"
  by (cases a) simp_all

lemma jeq_Fin [simp]: "jeq (Fin x) b = (b = Fin x)"
  by (auto simp: jeq_def)

section \<open>Sums, means and deviations of finite numbers\<close>

text \<open>
  On a list of finite numbers the statistics helpers are the real-valued sum, mean and
  population variance.
\<close>

lemma foldl_jadd_Fin: "foldl jadd (Fin a) (map Fin xs) = Fin (a + sum_list xs)"
  by (induction xs arbitrary: a) (simp_all add: add.assoc)

lemma sum_ss_Fin: "sum_ss (map Fin xs) = Fin (sum_list xs)"
  by (simp add: sum_ss_def foldl_jadd_Fin)

lemma mean_Fin: "xs \<noteq> [] \<Longrightarrow> mean (map Fin xs) = Fin (sum_list xs / real (length xs))"
  by (simp add: mean_def sum_ss_Fin)

lemma real_variance_nonneg: "0 \<le> real_variance xs"
  unfolding real_variance_def by (intro divide_nonneg_nonneg sum_list_nonneg) auto

lemma variance_Fin: "xs \<noteq> [] \<Longrightarrow> variance (map Fin xs) = Fin (real_variance xs)"
proof -
  assume ne: "xs \<noteq> []"
  have "map (\<lambda>x. jmul (jsub x (Fin m)) (jsub x (Fin m))) (map Fin xs) =
        map Fin (map (\<lambda>x. (x - m) * (x - m)) xs)" for m
    by simp
  then show ?thesis
    using ne by (simp add: variance_def mean_Fin sum_ss_Fin Let_def real_variance_def real_mean_def del: map_map)
qed

lemma standardDeviation_Fin:
  "xs \<noteq> [] \<Longrightarrow>
   standardDeviation (map Fin xs) = Fin (if length xs = 1 then 0 else sqrt (real_variance xs))"
  using real_variance_nonneg [of xs] by (simp add: standardDeviation_def variance_Fin not_less)

section \<open>The example stores\<close>

lemma getPriceArray_storeOf [simp]: "getPriceArray (storeOf s ps) s = map Fin ps"
  by (auto simp: getPriceArray_def storeOf_def seriesOf_def intro!: nth_equalityI)


section \<open>The Decision Engine: rule order and zero position\<close>

text \<open>
  Claim C1. For every forecast and every risk metrics, \<open>determineDecisionType\<close> is the
  first-match-wins rule list of the spec, in its order (high volatility with an expected
  value below 1.1 times the lower bound: reduce exposure; else VaR95 above 0.10: add
  collateral; else current drawdown above 0.15: reduce exposure; else relative uncertainty
  above 0.02: increase stable; else expected value above 1.05 times the lower bound with
  VaR95 below 0.05: take profit; else hold). In particular, with volatility 0.6 and an
  expected value below 1.1 times the lower bound the decision is to reduce exposure,
  whatever the other metrics are. The comparisons are JavaScript's, so the statement covers
  NaN and infinite inputs as well.
\<close>

theorem determineDecisionType_rule_order:
  "determineDecisionType forecast risk positionValue =
     decisionRules_spec (volatility risk) (expectedValue forecast) (lowerBound forecast)
       (var95 risk) (currentDrawdown risk) (relativeUncertainty risk) \<and>
   (volatility risk = Fin 0.6 \<and> jlt (expectedValue forecast) (jmul (Fin 1.1) (lowerBound forecast))
      \<longrightarrow> determineDecisionType forecast risk positionValue = reduce_exposure)"
  unfolding determineDecisionType_def decisionRules_spec_def
    jmul_commute [of "Fin 1.1"] jmul_commute [of "Fin 1.05"]
  by simp

text \<open>
  At volatility 0.6 with forecast 100 over a lower bound of 95, a VaR95 of 0.2 (which the
  second rule would turn into add-collateral) does not change the decision.
\<close>

theorem determineDecisionType_rule_order_witness:
  "volatility R1 = Fin 0.6 \<and> jlt (expectedValue F1) (jmul (Fin 1.1) (lowerBound F1)) \<and>
   jgt (var95 R1) (Fin 0.1) \<and>
   determineDecisionType F1 R1 (Fin 1000) = reduce_exposure"
proof -
  have h: "volatility R1 = Fin 0.6 \<and> jlt (expectedValue F1) (jmul (Fin 1.1) (lowerBound F1))"
    by (simp add: F1_def R1_def)
  with determineDecisionType_rule_order [of F1 R1 "Fin 1000"]
  have "determineDecisionType F1 R1 (Fin 1000) = reduce_exposure"
    by blast
  moreover have "jgt (var95 R1) (Fin 0.1)"
    by (simp add: R1_def)
  ultimately show ?thesis
    using h by blast
qed

text \<open>
  Claim C10. With a position value of 0 the probability of loss is 0 whatever the forecast
  is, and the urgency of the recommendation is computed from that 0. For any other position
  value, an error margin of 0 with a negative expected value gives probability 1 (the
  sigma = 0 rule), so the zero position overrides that rule.
\<close>

theorem zero_position_probability:
  "calculateProbabilityOfLoss forecast (Fin 0) = Fin 0 \<and>
   urgency (generateDecision now symb forecast risk (Fin 0) priceData) = determineUrgency risk (Fin 0) \<and>
   (positionValue \<noteq> Fin 0 \<and> errorMargin forecast = Fin 0 \<and> jlt (expectedValue forecast) (Fin 0)
      \<longrightarrow> calculateProbabilityOfLoss forecast positionValue = Fin 1)"
  by (simp add: calculateProbabilityOfLoss_def generateDecision_def jeq_def Let_def)

text \<open>
  The forecast \<open>F2\<close> has error margin 0 and expected value -10: at position 0 the
  probability is 0 and the urgency low, at position 500 the probability is 1 and the
  urgency critical.
\<close>

theorem zero_position_probability_witness:
  "calculateProbabilityOfLoss F2 (Fin 0) = Fin 0 \<and>
   urgency (generateDecision 0 ''SOL'' F2 R2 (Fin 0) PD1) = low \<and>
   Fin 500 \<noteq> Fin 0 \<and> errorMargin F2 = Fin 0 \<and> jlt (expectedValue F2) (Fin 0) \<and>
   calculateProbabilityOfLoss F2 (Fin 500) = Fin 1 \<and>
   urgency (generateDecision 0 ''SOL'' F2 R2 (Fin 500) PD1) = critical"
proof -
  have h: "Fin 500 \<noteq> Fin 0 \<and> errorMargin F2 = Fin 0 \<and> jlt (expectedValue F2) (Fin 0)"
    by (simp add: F2_def)
  note inst = zero_position_probability [of F2 0 "''SOL''" R2 PD1 "Fin 500"]
  from inst h have p1: "calculateProbabilityOfLoss F2 (Fin 500) = Fin 1"
    by blast
  from inst have p0: "calculateProbabilityOfLoss F2 (Fin 0) = Fin 0"
    by blast
  from inst have "urgency (generateDecision 0 ''SOL'' F2 R2 (Fin 0) PD1) = determineUrgency R2 (Fin 0)"
    by blast
  then have u0: "urgency (generateDecision 0 ''SOL'' F2 R2 (Fin 0) PD1) = low"
    by (simp add: determineUrgency_def R2_def)
  have u1: "urgency (generateDecision 0 ''SOL'' F2 R2 (Fin 500) PD1) = critical"
    by (simp add: generateDecision_def Let_def p1 determineUrgency_def)
  show ?thesis
    using h p0 p1 u0 u1 by blast
qed

section \<open>Divisions without a guard\<close>

lemma zero_history_forecast:
  "map_option (\<lambda>f. (expectedValue f, errorMargin f))
     (forecastExponentialSmoothing (storeOf ''X'' zeroPrices) ''X'' (Fin 7) (Fin 0.3) (Fin 0.1) (Fin 0.95)) =
   Some (Fin 0, Fin 0)"
  by (simp add: forecastExponentialSmoothing_def Let_def zeroPrices_def holtStep_def holtResidualStep_def
      standardDeviation_def variance_def mean_def sum_ss_def getZValue_def zTable_def lookup_num_def
      or_default_def jor_def jtruthy_def)

text \<open>
  Claim C4 says that every division by a quantity that can be 0 has a guarded fallback, so
  that the confidence score, the recommended maximum position and the store's total return
  are finite. The three divisions are not guarded. With the VaR95 of 0 that the risk engine
  returns for a series of fewer than 10 prices, the recommended maximum position of a
  position of 1000 is 50/0 = Infinity. With expected value 0 and error margin 0 (the
  smoothing forecast of an all-zero price history) the confidence score is NaN: 0/0, which
  \<^verbatim>\<open>Math.min\<close>, \<^verbatim>\<open>Math.round\<close> and the clamp to 0..100 all pass on. The total return of
  a series whose first and last price are 0 is NaN.
\<close>

theorem unguarded_divisions:
  "var95 (calculateRiskMetrics (storeOf ''SOL'' [100, 100]) ''SOL'' (Fin 1000) (Fin 0)) = Fin 0 \<and>
   recommendedMaxPosition (riskAssessment (generateDecision 0 ''SOL'' F1
       (calculateRiskMetrics (storeOf ''SOL'' [100, 100]) ''SOL'' (Fin 1000) (Fin 0)) (Fin 1000) PD1)) = PInf \<and>
   expectedValue F0 = Fin 0 \<and> errorMargin F0 = Fin 0 \<and>
   calculateConfidenceScore (Fin 100) F0 R2 = NaN \<and>
   confidenceScore (generateDecision 0 ''SOL'' F0 R2 (Fin 1000) PD1) = NaN \<and>
   map_option totalReturn (getStatistics (storeOf ''X'' [0, 0]) ''X'') = Some NaN"
proof -
  have c: "calculateConfidenceScore dq F0 R2 = NaN" for dq
    by (simp add: calculateConfidenceScore_def F0_def R2_def Let_def jmin_def jmax_def jsub_def)
  have v: "var95 (calculateRiskMetrics (storeOf ''SOL'' [100, 100]) ''SOL'' (Fin 1000) (Fin 0)) = Fin 0"
    by (simp add: calculateRiskMetrics_def calculateVaRParametric_def Let_def)
  have r: "recommendedMaxPosition (riskAssessment (generateDecision 0 ''SOL'' F1
       (calculateRiskMetrics (storeOf ''SOL'' [100, 100]) ''SOL'' (Fin 1000) (Fin 0)) (Fin 1000) PD1)) = PInf"
    by (simp add: generateDecision_def Let_def v)
  have t: "map_option totalReturn (getStatistics (storeOf ''X'' [0, 0]) ''X'') = Some NaN"
    by (simp add: getStatistics_def storeOf_def seriesOf_def Let_def)
  have f: "expectedValue F0 = Fin 0" "errorMargin F0 = Fin 0"
    by (simp_all add: F0_def)
  show ?thesis
    using c v r t f by (simp add: generateDecision_def Let_def)
qed

section \<open>The allocator: the plan that is never built\<close>

text \<open>The search starts at the candidate 0, whatever the step.\<close>

lemma candidates_head: "\<exists>rest. candidates sp = Fin 0 # rest"
  by (subst candidates_def, subst candidates_from.simps) (simp add: searchLimit_def toFixed4_def)

text \<open>
  The first pair of candidates, 0 for SOL and 0 for stable, passes both tests of the loop
  body for every input: the cash share is 1, and the SOL amount is 0 or NaN, so the VaR
  loss is 0 or NaN and is not greater than the limit. The plan literal is then evaluated.
\<close>

lemma considerPlan_first:
  "considerPlan input (Fin 0) best (Fin 0) = Inl (ReferenceError ''worstCaseLossPct'')"
  by (cases "totalUSD input"; cases "var95 (solRisk input)"; cases "maxVar95LossPct input")
     (simp_all add: considerPlan_def Let_def resolve_def)

lemma searchSol_first:
  "searchSol input gate (Fin 0 # rest) best (Fin 0) = Inl (ReferenceError ''worstCaseLossPct'')"
  by (simp add: searchSol_def considerPlan_first)

lemma optimizeAllocation_throws:
  "optimizeAllocation input = Inl (ReferenceError ''worstCaseLossPct'')"
proof -
  obtain rest where "candidates (stepPct input) = Fin 0 # rest"
    using candidates_head by blast
  then show ?thesis
    by (simp add: optimizeAllocation_def Let_def searchSol_first)
qed

text \<open>
  Claim C2 says that with the relative uncertainty above its ceiling the returned plan
  allocates exactly 0 to \<^verbatim>\<open>SOL_STAKING\<close>. For every input with the gate triggered
  \<^verbatim>\<open>optimizeAllocation\<close> returns no plan: it throws the \<^verbatim>\<open>ReferenceError\<close> of the unbound
  identifier \<^verbatim>\<open>worstCaseLossPct\<close> at the first pair of candidates.
\<close>

theorem safety_gate_returns_no_plan:
  "jgt (currentRelativeUncertainty input) (maxUncertainty input) \<Longrightarrow>
   optimizeAllocation input = Inl (ReferenceError ''worstCaseLossPct'')"
  by (rule optimizeAllocation_throws)

text \<open>The spec's scenario: a relative uncertainty of 0.02 against a ceiling of 0.01.\<close>

theorem safety_gate_returns_no_plan_witness:
  "jgt (currentRelativeUncertainty A1) (maxUncertainty A1) \<and>
   optimizeAllocation A1 = Inl (ReferenceError ''worstCaseLossPct'')"
proof -
  have g: "jgt (currentRelativeUncertainty A1) (maxUncertainty A1)"
    by (simp add: A1_def)
  from safety_gate_returns_no_plan [OF g] g show ?thesis by simp
qed

text \<open>
  Claim C5 says that the three fractions of the returned plan sum to 1 within 1e-6. For
  every input \<^verbatim>\<open>optimizeAllocation\<close> throws the \<^verbatim>\<open>ReferenceError\<close> of the unbound
  identifier \<^verbatim>\<open>worstCaseLossPct\<close>, so there is no returned plan whose fractions could be
  added up.
\<close>

theorem allocator_returns_no_plan:
  "optimizeAllocation input = Inl (ReferenceError ''worstCaseLossPct'') \<and>
   optimizeAllocation input \<noteq> Inr plan"
  by (simp add: optimizeAllocation_throws)

section \<open>The cashflow forecast: expected balance and overdraft probability\<close>

lemma cf_buckets: "toDailyNetFlows cfNow cfEvents 30 = map Fin (replicate 30 (- 20))"
  by code_simp

lemma cf_scenario:
  "forecastCashflow cfNow (Fin sb) cfEvents (Fin 7) 30 (Fin 0.95) =
     Some \<lparr>cf_horizonDays = Fin 7, cf_confidenceLevel = Fin 0.95, startingBalance = Fin sb,
           expectedEndingBalance = Fin (sb - 140), cf_lowerBound = Fin (sb - 140),
           cf_upperBound = Fin (sb - 140), cf_errorMargin = Fin 0, inputDays = 30,
           meanDailyNet = Fin (- 20), stdDailyNet = Fin 0,
           probabilityOfOverdraft = (if sb - 140 < 0 then Fin 1 else Fin 0),
           assumptions =
             [''Daily net cashflow is approximately stationary over the lookback window.'',
              ''Aggregate net flow uncertainty scales with sqrt(time).'',
              ''Overdraft probability assumes a normal distribution for aggregate net flow.'']\<rparr>"
proof -
  have m: "mean (map Fin (replicate 30 (- 20))) = Fin (- 20)"
    by (subst mean_Fin) (simp_all add: sum_list_replicate)
  have s: "standardDeviation (map Fin (replicate 30 (- 20))) = Fin 0"
    by (subst standardDeviation_Fin) (simp_all add: real_variance_def real_mean_def sum_list_replicate)
  have nz: "list_ex (\<lambda>v. jne v (Fin 0)) (map Fin (replicate 30 (- 20)))"
    by (simp add: list_ex_iff jne_def jeq_def)
  show ?thesis
    unfolding forecastCashflow_def cf_buckets Let_def
    by (simp only: nz m s) (simp add: cf_getZValue_def)
qed

text \<open>
  Claim C6. When some daily bucket is not zero, \<open>forecastCashflow\<close> returns a result; the
  result's expected ending balance is the starting balance plus the horizon times the mean
  of the daily buckets, and when sigma times the square root of the horizon is 0 the
  overdraft probability is 1 for a negative expected ending balance and 0 otherwise. In the
  scenario of the spec (starting balance 500, 30 days of daily net -20, horizon 7) the
  result has expected ending balance 360, mean daily net -20, standard deviation 0 and
  overdraft probability 0.
\<close>

theorem forecastCashflow_expected_and_overdraft:
  "(list_ex (\<lambda>v. jne v (Fin 0)) (toDailyNetFlows now events lookbackDays) \<longrightarrow>
      (\<exists>r. forecastCashflow now sb events horizon lookbackDays cl = Some r)) \<and>
   (\<forall>r. forecastCashflow now sb events horizon lookbackDays cl = Some r \<longrightarrow>
      expectedEndingBalance r = jadd sb (jmul horizon (mean (toDailyNetFlows now events lookbackDays))) \<and>
      (jmul (stdDailyNet r) (jsqrt horizon) = Fin 0 \<longrightarrow>
         probabilityOfOverdraft r = (if jlt (expectedEndingBalance r) (Fin 0) then Fin 1 else Fin 0))) \<and>
   (\<exists>r. forecastCashflow cfNow (Fin 500) cfEvents (Fin 7) 30 (Fin 0.95) = Some r \<and>
        expectedEndingBalance r = Fin 360 \<and> meanDailyNet r = Fin (- 20) \<and>
        stdDailyNet r = Fin 0 \<and> probabilityOfOverdraft r = Fin 0)"
proof (intro conjI allI impI)
  assume "list_ex (\<lambda>v. jne v (Fin 0)) (toDailyNetFlows now events lookbackDays)"
  then show "\<exists>r. forecastCashflow now sb events horizon lookbackDays cl = Some r"
    by (simp add: forecastCashflow_def Let_def)
next
  fix r assume "forecastCashflow now sb events horizon lookbackDays cl = Some r"
  then show "expectedEndingBalance r = jadd sb (jmul horizon (mean (toDailyNetFlows now events lookbackDays)))"
    by (auto simp: forecastCashflow_def Let_def split: if_splits)
next
  fix r assume "forecastCashflow now sb events horizon lookbackDays cl = Some r"
    and "jmul (stdDailyNet r) (jsqrt horizon) = Fin 0"
  then show "probabilityOfOverdraft r = (if jlt (expectedEndingBalance r) (Fin 0) then Fin 1 else Fin 0)"
    by (auto simp: forecastCashflow_def Let_def split: if_splits)
next
  show "\<exists>r. forecastCashflow cfNow (Fin 500) cfEvents (Fin 7) 30 (Fin 0.95) = Some r \<and>
        expectedEndingBalance r = Fin 360 \<and> meanDailyNet r = Fin (- 20) \<and>
        stdDailyNet r = Fin 0 \<and> probabilityOfOverdraft r = Fin 0"
    by (subst cf_scenario) simp
qed

text \<open>
  The same events with a starting balance of 100: the expected ending balance is -40 and
  the overdraft probability is 1.
\<close>

theorem forecastCashflow_expected_and_overdraft_witness:
  "list_ex (\<lambda>v. jne v (Fin 0)) (toDailyNetFlows cfNow cfEvents 30) \<and>
   forecastCashflow cfNow (Fin 100) cfEvents (Fin 7) 30 (Fin 0.95) \<noteq> None \<and>
   jmul (stdDailyNet (the (forecastCashflow cfNow (Fin 100) cfEvents (Fin 7) 30 (Fin 0.95))))
        (jsqrt (Fin 7)) = Fin 0 \<and>
   expectedEndingBalance (the (forecastCashflow cfNow (Fin 100) cfEvents (Fin 7) 30 (Fin 0.95))) =
     Fin (- 40) \<and>
   probabilityOfOverdraft (the (forecastCashflow cfNow (Fin 100) cfEvents (Fin 7) 30 (Fin 0.95))) =
     Fin 1"
proof -
  note inst = forecastCashflow_expected_and_overdraft
    [of cfNow cfEvents 30 "Fin 100" "Fin 7" "Fin 0.95"]
  have nz: "list_ex (\<lambda>v. jne v (Fin 0)) (toDailyNetFlows cfNow cfEvents 30)"
    by (simp add: cf_buckets list_ex_iff jne_def jeq_def)
  with inst obtain r where r: "forecastCashflow cfNow (Fin 100) cfEvents (Fin 7) 30 (Fin 0.95) = Some r"
    by blast
  have sd: "stdDailyNet r = Fin 0"
    using r by (subst (asm) cf_scenario) auto
  have den: "jmul (stdDailyNet r) (jsqrt (Fin 7)) = Fin 0"
    by (simp add: sd)
  from inst r have e: "expectedEndingBalance r =
      jadd (Fin 100) (jmul (Fin 7) (mean (toDailyNetFlows cfNow cfEvents 30)))"
    by blast
  have m: "mean (toDailyNetFlows cfNow cfEvents 30) = Fin (- 20)"
    unfolding cf_buckets by (subst mean_Fin) (simp_all add: sum_list_replicate)
  have e': "expectedEndingBalance r = Fin (- 40)"
    by (simp add: e m)
  from inst r den have "probabilityOfOverdraft r =
      (if jlt (expectedEndingBalance r) (Fin 0) then Fin 1 else Fin 0)"
    by blast
  then have p: "probabilityOfOverdraft r = Fin 1"
    by (simp add: e')
  show ?thesis
    using nz r den e' p by simp
qed

section \<open>The portfolio aggregate\<close>






section \<open>The risk engine: parametric VaR across confidence levels\<close>



















section \<open>The risk engine: historical CVaR against historical VaR\<close>



























section \<open>The forecast ensemble: the union of the intervals\<close>
























end
